theory Spec2Isabelle
  imports Main "HOL-Library.Word"
begin

unbundle bit_operations_syntax

section \<open>Machine values\<close>

text \<open>
  \<^verbatim>\<open>uint64_t\<close> is a 64-bit word: \<open>+\<close> wraps around and \<open><\<close> is the unsigned order,
  as in C. A \<^verbatim>\<open>double\<close> is kept as its IEEE 754 binary64 bit pattern (sign, 11 bits of
  exponent, 52 bits of fraction), so that an assignment copies the pattern and the C
  comparison \<^verbatim>\<open>!=\<close> is the IEEE one: a NaN differs from everything, itself included, and
  the two zeros are equal.
\<close>

type_synonym u64 = "64 word"
type_synonym double = "64 word"

definition d_isnan :: "double \<Rightarrow> bool" where
  "d_isnan d \<longleftrightarrow> drop_bit 52 d AND 0x7FF = 0x7FF \<and> d AND 0xFFFFFFFFFFFFF \<noteq> 0"

definition d_iszero :: "double \<Rightarrow> bool" where
  "d_iszero d \<longleftrightarrow> d AND 0x7FFFFFFFFFFFFFFF = 0"

text \<open>The C operator \<^verbatim>\<open>==\<close> on two doubles.\<close>

definition d_eq :: "double \<Rightarrow> double \<Rightarrow> bool" where
  "d_eq a b \<longleftrightarrow> \<not> d_isnan a \<and> \<not> d_isnan b \<and> (a = b \<or> (d_iszero a \<and> d_iszero b))"

text \<open>The C operator \<^verbatim>\<open>!=\<close> on two doubles.\<close>

definition d_ne :: "double \<Rightarrow> double \<Rightarrow> bool" where
  "d_ne a b \<longleftrightarrow> \<not> d_eq a b"

text \<open>The constants \<^verbatim>\<open>1.0\<close> and \<^verbatim>\<open>0.5\<close>.\<close>

definition d_one :: double where
  "d_one = 0x3FF0000000000000"

definition d_half :: double where
  "d_half = 0x3FE0000000000000"

text \<open>
  The double addition and multiplication of the machine. The arithmetic unit is a
  parameter of the one function that computes with doubles, so that what is proved of it
  holds for every rounding of \<^verbatim>\<open>+\<close> and \<^verbatim>\<open>*\<close>.
\<close>

record fpu =
  d_add :: "double \<Rightarrow> double \<Rightarrow> double"
  d_mul :: "double \<Rightarrow> double \<Rightarrow> double"

text \<open>
  Modelled from the spec: the macro \<^verbatim>\<open>POW2\<close> of \<^verbatim>\<open>acfutils/math.h\<close> is not part of the
  sources; the specification's \<open>dt\<^sup>2\<close> is the argument multiplied by itself.
\<close>

definition POW2 :: "fpu \<Rightarrow> double \<Rightarrow> double" where
  "POW2 fp v = d_mul fp v v"

section \<open>Data of the plugin\<close>

text \<open>
  Modelled from the spec: the declaration of \<^verbatim>\<open>XPLMCameraPosition_t\<close> (\<^verbatim>\<open>XPLMCamera.h\<close>)
  is not part of the sources; the specification gives the pose as
  \<^verbatim>\<open>{x, y, z, roll, pitch, heading, zoom: float64}\<close>. The fields carry the prefix of the
  C expression \<^verbatim>\<open>pos->x\<close>.
\<close>

record pose =
  pos_x :: double
  pos_y :: double
  pos_z :: double
  pos_pitch :: double
  pos_heading :: double
  pos_roll :: double
  pos_zoom :: double

text \<open>
  The four file-scope variables \<^verbatim>\<open>allow_zoom\<close>, \<^verbatim>\<open>allow_zoom_t\<close>, \<^verbatim>\<open>cam_ctl\<close> and
  \<^verbatim>\<open>zoom_tgt\<close>. A \<^verbatim>\<open>bool_t\<close> only ever holds \<^verbatim>\<open>B_TRUE\<close>, \<^verbatim>\<open>B_FALSE\<close> or the result
  of \<^verbatim>\<open>!\<close>, and is only tested for truth: it is a \<open>bool\<close>.
\<close>

record globals =
  allow_zoom :: bool
  allow_zoom_t :: u64
  cam_ctl :: bool
  zoom_tgt :: double

definition init_globals :: globals where
  "init_globals = \<lparr>allow_zoom = False, allow_zoom_t = 0, cam_ctl = False, zoom_tgt = d_one\<rparr>"

definition ZOOM_REL_INH_KEY_T :: u64 where
  "ZOOM_REL_INH_KEY_T = 500000"

definition ZOOM_REL_CMD_T :: u64 where
  "ZOOM_REL_CMD_T = 550000"

definition ZOOM_REL_QUICK_LOOK_T :: u64 where
  "ZOOM_REL_QUICK_LOOK_T = 1250000"

text \<open>
  What the datarefs of the struct \<^verbatim>\<open>drs\<close> read when a callback runs: \<^verbatim>\<open>dr_geti\<close> gives an
  \<^verbatim>\<open>int\<close>, \<^verbatim>\<open>dr_getf\<close> a \<^verbatim>\<open>double\<close>. The angular rates \<^verbatim>\<open>P\<close>, \<^verbatim>\<open>Q\<close>, \<^verbatim>\<open>R\<close> are
  \<open>rate_P\<close>, \<open>rate_Q\<close>, \<open>rate_R\<close>.
\<close>

record drs =
  view_is_ext :: int
  local_vx :: double
  local_vy :: double
  local_vz :: double
  local_ax :: double
  local_ay :: double
  local_az :: double
  rate_P :: double
  rate_Q :: double
  rate_R :: double
  frame_intval :: double

text \<open>
  What the host answers during one callback: the clock \<^verbatim>\<open>microclock()\<close>, the camera
  position that \<^verbatim>\<open>XPLMReadCameraPosition\<close> writes (the pose the host proposes for the
  frame), and the datarefs.
\<close>

record env =
  microclock :: u64
  camera :: pose
  datarefs :: drs

text \<open>The two commands that \<^verbatim>\<open>XPluginEnable\<close> creates (struct \<^verbatim>\<open>cmds\<close>); a reference is an address.\<close>

type_synonym XPLMCommandRef = nat

record cmds =
  allow_zoom_hold :: XPLMCommandRef
  allow_zoom_tog :: XPLMCommandRef

datatype XPLMCommandPhase = xplm_CommandBegin | xplm_CommandContinue | xplm_CommandEnd

text \<open>
  A call of \<^verbatim>\<open>XPLMControlCamera\<close>, with its duration and the callback it installs. The
  plugin only ever passes \<^verbatim>\<open>xplm_ControlCameraUntilViewChanges\<close>; the other duration of
  the host's interface is \<^verbatim>\<open>xplm_ControlCameraForever\<close>.
\<close>

datatype XPLMCameraControlDuration =
  xplm_ControlCameraUntilViewChanges | xplm_ControlCameraForever

datatype camera_callback = Cam_ctl_cb

datatype host_call = XPLMControlCamera XPLMCameraControlDuration camera_callback

section \<open>The camera control callback\<close>

text \<open>
  \<^verbatim>\<open>cam_ctl_cb\<close> of the two 2019 variants (they are the same function). The result is the
  returned \<^verbatim>\<open>int\<close>, the pose left in \<^verbatim>\<open>*pos\<close> and the variables.
\<close>

definition cam_ctl_cb :: "env \<Rightarrow> pose \<Rightarrow> int \<Rightarrow> globals \<Rightarrow> int \<times> pose \<times> globals" where
  "cam_ctl_cb e pos0 losing_ctl g =
     (if losing_ctl \<noteq> 0 then (0, pos0, g\<lparr>cam_ctl := False\<rparr>)
      else
        let pos = camera e in
        if allow_zoom g \<or> (allow_zoom_t g \<noteq> 0 \<and> microclock e < allow_zoom_t g)
        then (0, pos, g\<lparr>zoom_tgt := pos_zoom pos, cam_ctl := False\<rparr>)
        else if d_ne (pos_zoom pos) (zoom_tgt g)
        then (1, pos\<lparr>pos_zoom := zoom_tgt g\<rparr>, g\<lparr>allow_zoom_t := 0\<rparr>)
        else (0, pos, g\<lparr>cam_ctl := False\<rparr>))"

text \<open>
  \<^verbatim>\<open>cam_ctl_cb\<close> of the 2021 variant, which also moves the camera to its position of the
  next frame when it inhibits a zoom.
\<close>

definition cam_ctl_cb_ext ::
  "fpu \<Rightarrow> env \<Rightarrow> pose \<Rightarrow> int \<Rightarrow> globals \<Rightarrow> int \<times> pose \<times> globals" where
  "cam_ctl_cb_ext fp e pos0 losing_ctl g =
     (if losing_ctl \<noteq> 0 then (0, pos0, g\<lparr>cam_ctl := False\<rparr>)
      else
        let pos = camera e in
        if allow_zoom g \<or> (allow_zoom_t g \<noteq> 0 \<and> microclock e < allow_zoom_t g)
        then (0, pos, g\<lparr>zoom_tgt := pos_zoom pos, cam_ctl := False\<rparr>)
        else if d_ne (pos_zoom pos) (zoom_tgt g)
        then
          let intval = frame_intval (datarefs e);
              vx = local_vx (datarefs e);
              vy = local_vy (datarefs e);
              vz = local_vz (datarefs e);
              ax = local_ax (datarefs e);
              ay = local_ay (datarefs e);
              az = local_az (datarefs e);
              pos = pos\<lparr>pos_zoom := zoom_tgt g\<rparr>;
              pos = pos\<lparr>pos_x := d_add fp (pos_x pos)
                (d_add fp (d_mul fp vx intval) (d_mul fp (d_mul fp d_half ax) (POW2 fp intval)))\<rparr>;
              pos = pos\<lparr>pos_y := d_add fp (pos_y pos)
                (d_add fp (d_mul fp vy intval) (d_mul fp (d_mul fp d_half ay) (POW2 fp intval)))\<rparr>;
              pos = pos\<lparr>pos_z := d_add fp (pos_z pos)
                (d_add fp (d_mul fp vz intval) (d_mul fp (d_mul fp d_half az) (POW2 fp intval)))\<rparr>;
              pos = pos\<lparr>pos_roll := d_add fp (pos_roll pos) (d_mul fp (rate_P (datarefs e)) intval)\<rparr>;
              pos = pos\<lparr>pos_pitch := d_add fp (pos_pitch pos) (d_mul fp (rate_Q (datarefs e)) intval)\<rparr>;
              pos = pos\<lparr>pos_heading := d_add fp (pos_heading pos) (d_mul fp (rate_R (datarefs e)) intval)\<rparr>
          in (1, pos, g\<lparr>allow_zoom_t := 0\<rparr>)
        else (0, pos, g\<lparr>cam_ctl := False\<rparr>))"

section \<open>The draw callback and the command handlers\<close>

text \<open>\<^verbatim>\<open>draw_cb\<close>: the returned \<^verbatim>\<open>int\<close>, the variables and the calls made to the host.\<close>

definition draw_cb :: "env \<Rightarrow> globals \<Rightarrow> int \<times> globals \<times> host_call list" where
  "draw_cb e g =
     (let view_is_ext = (view_is_ext (datarefs e) \<noteq> 0) in
      if \<not> view_is_ext \<and> \<not> cam_ctl g
      then (1, g\<lparr>cam_ctl := True\<rparr>,
            [XPLMControlCamera xplm_ControlCameraUntilViewChanges Cam_ctl_cb])
      else (1, g, []))"

definition quick_look_cmd_cb ::
  "env \<Rightarrow> XPLMCommandRef \<Rightarrow> XPLMCommandPhase \<Rightarrow> globals \<Rightarrow> int \<times> globals" where
  "quick_look_cmd_cb e ref phase g =
     (1, g\<lparr>allow_zoom_t := microclock e + ZOOM_REL_QUICK_LOOK_T\<rparr>)"

definition zoom_cmd_cb ::
  "env \<Rightarrow> XPLMCommandRef \<Rightarrow> XPLMCommandPhase \<Rightarrow> globals \<Rightarrow> int \<times> globals" where
  "zoom_cmd_cb e ref phase g =
     (1, g\<lparr>allow_zoom_t := microclock e + ZOOM_REL_CMD_T\<rparr>)"

definition allow_zoom_cb ::
  "cmds \<Rightarrow> env \<Rightarrow> XPLMCommandRef \<Rightarrow> XPLMCommandPhase \<Rightarrow> globals \<Rightarrow> int \<times> globals" where
  "allow_zoom_cb c e ref phase g =
     (if ref = allow_zoom_hold c then
        (if phase = xplm_CommandBegin \<or> phase = xplm_CommandContinue
         then (1, g\<lparr>allow_zoom := True\<rparr>)
         else (1, g\<lparr>allow_zoom := False,
                     allow_zoom_t := microclock e + ZOOM_REL_INH_KEY_T\<rparr>))
      else if ref = allow_zoom_tog c then
        (if phase = xplm_CommandBegin then
           (let g = g\<lparr>allow_zoom := \<not> allow_zoom g\<rparr> in
            if \<not> allow_zoom g
            then (1, g\<lparr>allow_zoom_t := microclock e + ZOOM_REL_INH_KEY_T\<rparr>)
            else (1, g))
         else (1, g))
      else (1, g))"

section \<open>The commands bound when the plugin is enabled\<close>

text \<open>
  \<^verbatim>\<open>XPluginEnable\<close> binds \<^verbatim>\<open>quick_look_cmd_cb\<close> to \<^verbatim>\<open>sim/view/quick_look_%d\<close> for
  \<open>i = 0, \<dots>, 19\<close> and \<^verbatim>\<open>zoom_cmd_cb\<close> to six zoom commands; \<open>fmt_d\<close> is the
  \<^verbatim>\<open>%d\<close> of the format string.
\<close>

datatype cmd_handler = Quick_look_cmd_cb | Zoom_cmd_cb

fun fmt_d :: "nat \<Rightarrow> string" where
  "fmt_d n =
     (if n < 10 then [char_of (48 + n)]
      else fmt_d (n div 10) @ [char_of (48 + n mod 10)])"

declare fmt_d.simps [simp del]

definition XPluginEnable_cmd_bind :: "(string \<times> cmd_handler) list" where
  "XPluginEnable_cmd_bind =
     map (\<lambda>i. (''sim/view/quick_look_'' @ fmt_d i, Quick_look_cmd_cb)) [0..<20] @
     [(''sim/general/zoom_in'', Zoom_cmd_cb),
      (''sim/general/zoom_out'', Zoom_cmd_cb),
      (''sim/general/zoom_in_fast'', Zoom_cmd_cb),
      (''sim/general/zoom_out_fast'', Zoom_cmd_cb),
      (''sim/general/zoom_in_slow'', Zoom_cmd_cb),
      (''sim/general/zoom_out_slow'', Zoom_cmd_cb)]"

text \<open>The host calls the handler bound to a command, with the command and the phase.\<close>

definition call_handler ::
  "cmd_handler \<Rightarrow> env \<Rightarrow> XPLMCommandRef \<Rightarrow> XPLMCommandPhase \<Rightarrow> globals \<Rightarrow> int \<times> globals" where
  "call_handler h =
     (case h of Quick_look_cmd_cb \<Rightarrow> quick_look_cmd_cb | Zoom_cmd_cb \<Rightarrow> zoom_cmd_cb)"

section \<open>Concrete inputs\<close>

text \<open>
  A camera at the origin with a given zoom, an aircraft at rest, the host at a given time
  with that camera, and the doubles \<^verbatim>\<open>1.3\<close> (rounded to nearest), \<^verbatim>\<open>-0.0\<close> and a quiet NaN.
\<close>

definition pose_at_zoom :: "double \<Rightarrow> pose" where
  "pose_at_zoom zm =
     \<lparr>pos_x = 0, pos_y = 0, pos_z = 0, pos_pitch = 0, pos_heading = 0, pos_roll = 0,
      pos_zoom = zm\<rparr>"

definition drs_at_rest :: "int \<Rightarrow> drs" where
  "drs_at_rest ext =
     \<lparr>view_is_ext = ext, local_vx = 0, local_vy = 0, local_vz = 0, local_ax = 0,
      local_ay = 0, local_az = 0, rate_P = 0, rate_Q = 0, rate_R = 0, frame_intval = 0\<rparr>"

definition env_at :: "u64 \<Rightarrow> double \<Rightarrow> env" where
  "env_at t zm = \<lparr>microclock = t, camera = pose_at_zoom zm, datarefs = drs_at_rest 0\<rparr>"

definition d_1_3 :: double where
  "d_1_3 = 0x3FF4CCCCCCCCCCCD"

definition d_neg_zero :: double where
  "d_neg_zero = 0x8000000000000000"

definition d_qnan :: double where
  "d_qnan = 0x7FF8000000000000"

text \<open>
  An arithmetic unit that is exact where every operand is \<^verbatim>\<open>+0.0\<close> or \<^verbatim>\<open>0.5\<close>, as in a
  run with \<open>env_at\<close>: such a product is \<^verbatim>\<open>+0.0\<close>, and adding \<^verbatim>\<open>+0.0\<close> to \<^verbatim>\<open>+0.0\<close> gives
  the first operand.
\<close>

definition fpu_at_rest :: fpu where
  "fpu_at_rest = \<lparr>d_add = (\<lambda>a b. a), d_mul = (\<lambda>a b. 0)\<rparr>"

definition cmds_ex :: cmds where
  "cmds_ex = \<lparr>allow_zoom_hold = 4096, allow_zoom_tog = 8192\<rparr>"

section \<open>Auxiliary facts\<close>

lemmas d_cmp_defs = d_ne_def d_eq_def d_isnan_def d_iszero_def

lemmas input_defs =
  pose_at_zoom_def drs_at_rest_def env_at_def d_1_3_def d_neg_zero_def d_qnan_def d_one_def
  d_half_def fpu_at_rest_def cmds_ex_def init_globals_def

lemmas duration_defs = ZOOM_REL_INH_KEY_T_def ZOOM_REL_CMD_T_def ZOOM_REL_QUICK_LOOK_T_def

text \<open>A NaN differs from itself, and the negative zero equals the positive one.\<close>

lemma d_ne_nan_itself: "d_ne d_qnan d_qnan"
  by (simp add: d_cmp_defs d_qnan_def)

lemma d_eq_zeros: "d_eq d_neg_zero 0"
  by (simp add: d_cmp_defs d_neg_zero_def)

text \<open>Where neither value is a NaN or a zero, \<^verbatim>\<open>!=\<close> is the difference of the bit patterns.\<close>

lemma d_ne_plain:
  "\<not> d_isnan a \<Longrightarrow> \<not> d_isnan b \<Longrightarrow> \<not> d_iszero a \<Longrightarrow> d_ne a b \<longleftrightarrow> a \<noteq> b"
  by (auto simp: d_ne_def d_eq_def)

lemma u64_deadline_no_wrap:
  fixes t d :: u64
  assumes "unat t + unat d < 2 ^ 64"
  shows "unat (t + d) = unat t + unat d"
  using assms by (simp add: unat_add_lem [THEN iffD1])

section \<open>The camera control callback: suppression, learning, release\<close>

text \<open>
  C1 (suppression). The callback runs with \<^verbatim>\<open>losing_ctl\<close> zero, \<^verbatim>\<open>allow_zoom\<close> is false, the
  deadline \<^verbatim>\<open>allow_zoom_t\<close> is zero or the clock is not before it, and the zoom of the
  camera position differs (\<^verbatim>\<open>!=\<close>) from \<^verbatim>\<open>zoom_tgt\<close>. Then, in both variants, the zoom left
  in the pose is the \<^verbatim>\<open>zoom_tgt\<close> of before the call, \<^verbatim>\<open>zoom_tgt\<close> is unchanged, the
  deadline is zero, \<^verbatim>\<open>allow_zoom\<close> and \<^verbatim>\<open>cam_ctl\<close> are unchanged, and the callback
  returns 1 (it keeps the camera).
\<close>

theorem suppression_correct:
  assumes "losing_ctl = 0"
    and "\<not> allow_zoom g"
    and "allow_zoom_t g = 0 \<or> \<not> microclock e < allow_zoom_t g"
    and "d_ne (pos_zoom (camera e)) (zoom_tgt g)"
  shows "(case cam_ctl_cb e buf losing_ctl g of (r, pos', g') \<Rightarrow>
            pos_zoom pos' = zoom_tgt g \<and> zoom_tgt g' = zoom_tgt g \<and> allow_zoom_t g' = 0 \<and>
            allow_zoom g' = allow_zoom g \<and> cam_ctl g' = cam_ctl g \<and> r = 1) \<and>
         (case cam_ctl_cb_ext fp e buf losing_ctl g of (r, pos', g') \<Rightarrow>
            pos_zoom pos' = zoom_tgt g \<and> zoom_tgt g' = zoom_tgt g \<and> allow_zoom_t g' = 0 \<and>
            allow_zoom g' = allow_zoom g \<and> cam_ctl g' = cam_ctl g \<and> r = 1)"
  using assms by (auto simp: cam_ctl_cb_def cam_ctl_cb_ext_def Let_def)

theorem suppression_correct_witness:
  "allow_zoom (init_globals\<lparr>cam_ctl := True, allow_zoom_t := 900\<rparr>) = False \<and>
   \<not> microclock (env_at 1000 d_1_3) <
     allow_zoom_t (init_globals\<lparr>cam_ctl := True, allow_zoom_t := 900\<rparr>) \<and>
   d_ne (pos_zoom (camera (env_at 1000 d_1_3)))
     (zoom_tgt (init_globals\<lparr>cam_ctl := True, allow_zoom_t := 900\<rparr>)) \<and>
   cam_ctl_cb (env_at 1000 d_1_3) (pose_at_zoom 0) 0
       (init_globals\<lparr>cam_ctl := True, allow_zoom_t := 900\<rparr>) =
     (1, pose_at_zoom d_one, init_globals\<lparr>cam_ctl := True\<rparr>) \<and>
   cam_ctl_cb_ext fpu_at_rest (env_at 1000 d_1_3) (pose_at_zoom 0) 0
       (init_globals\<lparr>cam_ctl := True, allow_zoom_t := 900\<rparr>) =
     (1, pose_at_zoom d_one, init_globals\<lparr>cam_ctl := True\<rparr>)"
  using suppression_correct [where losing_ctl = 0
      and g = "init_globals\<lparr>cam_ctl := True, allow_zoom_t := 900\<rparr>"
      and e = "env_at 1000 d_1_3" and buf = "pose_at_zoom 0" and fp = fpu_at_rest]
  by (simp add: cam_ctl_cb_def cam_ctl_cb_ext_def POW2_def input_defs d_cmp_defs)

text \<open>
  C2 (learning). The callback runs with \<^verbatim>\<open>losing_ctl\<close> zero and zooming is allowed:
  \<^verbatim>\<open>allow_zoom\<close> is true, or the deadline is not zero and the clock is before it. Then, in
  both variants and for every zoom of the camera position, \<^verbatim>\<open>zoom_tgt\<close> becomes that
  zoom, the pose left is the camera position as the host gave it, and \<^verbatim>\<open>allow_zoom\<close> and
  the deadline are unchanged.
\<close>

theorem learning_correct:
  assumes "losing_ctl = 0"
    and "allow_zoom g \<or> (allow_zoom_t g \<noteq> 0 \<and> microclock e < allow_zoom_t g)"
  shows "(case cam_ctl_cb e buf losing_ctl g of (r, pos', g') \<Rightarrow>
            zoom_tgt g' = pos_zoom (camera e) \<and> pos' = camera e \<and>
            allow_zoom g' = allow_zoom g \<and> allow_zoom_t g' = allow_zoom_t g) \<and>
         (case cam_ctl_cb_ext fp e buf losing_ctl g of (r, pos', g') \<Rightarrow>
            zoom_tgt g' = pos_zoom (camera e) \<and> pos' = camera e \<and>
            allow_zoom g' = allow_zoom g \<and> allow_zoom_t g' = allow_zoom_t g)"
  using assms by (auto simp: cam_ctl_cb_def cam_ctl_cb_ext_def Let_def)

theorem learning_correct_witness:
  "allow_zoom_t (init_globals\<lparr>cam_ctl := True, allow_zoom_t := 1250000\<rparr>) \<noteq> 0 \<and>
   microclock (env_at 1000000 d_1_3) <
     allow_zoom_t (init_globals\<lparr>cam_ctl := True, allow_zoom_t := 1250000\<rparr>) \<and>
   cam_ctl_cb (env_at 1000000 d_1_3) (pose_at_zoom 0) 0
       (init_globals\<lparr>cam_ctl := True, allow_zoom_t := 1250000\<rparr>) =
     (0, pose_at_zoom d_1_3, init_globals\<lparr>allow_zoom_t := 1250000, zoom_tgt := d_1_3\<rparr>) \<and>
   cam_ctl_cb_ext fpu_at_rest (env_at 1000000 d_1_3) (pose_at_zoom 0) 0
       (init_globals\<lparr>cam_ctl := True, allow_zoom_t := 1250000\<rparr>) =
     (0, pose_at_zoom d_1_3, init_globals\<lparr>allow_zoom_t := 1250000, zoom_tgt := d_1_3\<rparr>)"
  using learning_correct [where losing_ctl = 0
      and g = "init_globals\<lparr>cam_ctl := True, allow_zoom_t := 1250000\<rparr>"
      and e = "env_at 1000000 d_1_3" and buf = "pose_at_zoom 0" and fp = fpu_at_rest]
  by (simp add: cam_ctl_cb_def cam_ctl_cb_ext_def input_defs)

text \<open>
  C4 (release). The callback runs with \<^verbatim>\<open>losing_ctl\<close> zero, zooming is not allowed, and the
  zoom of the camera position equals (\<^verbatim>\<open>==\<close>) \<^verbatim>\<open>zoom_tgt\<close>. Then, in both variants,
  \<^verbatim>\<open>cam_ctl\<close> is cleared and nothing else changes: the callback returns 0, the pose left
  is the camera position as the host gave it, and \<^verbatim>\<open>zoom_tgt\<close>, \<^verbatim>\<open>allow_zoom\<close> and the
  deadline keep their values.
\<close>

theorem idempotent_release:
  assumes "losing_ctl = 0"
    and "\<not> allow_zoom g"
    and "allow_zoom_t g = 0 \<or> \<not> microclock e < allow_zoom_t g"
    and "d_eq (pos_zoom (camera e)) (zoom_tgt g)"
  shows "(case cam_ctl_cb e buf losing_ctl g of (r, pos', g') \<Rightarrow>
            \<not> cam_ctl g' \<and> r = 0 \<and> zoom_tgt g' = zoom_tgt g \<and> pos' = camera e \<and>
            allow_zoom g' = allow_zoom g \<and> allow_zoom_t g' = allow_zoom_t g) \<and>
         (case cam_ctl_cb_ext fp e buf losing_ctl g of (r, pos', g') \<Rightarrow>
            \<not> cam_ctl g' \<and> r = 0 \<and> zoom_tgt g' = zoom_tgt g \<and> pos' = camera e \<and>
            allow_zoom g' = allow_zoom g \<and> allow_zoom_t g' = allow_zoom_t g)"
  using assms by (auto simp: cam_ctl_cb_def cam_ctl_cb_ext_def d_ne_def Let_def)

theorem idempotent_release_witness:
  "allow_zoom (init_globals\<lparr>cam_ctl := True, allow_zoom_t := 900\<rparr>) = False \<and>
   \<not> microclock (env_at 1000 d_one) <
     allow_zoom_t (init_globals\<lparr>cam_ctl := True, allow_zoom_t := 900\<rparr>) \<and>
   d_eq (pos_zoom (camera (env_at 1000 d_one)))
     (zoom_tgt (init_globals\<lparr>cam_ctl := True, allow_zoom_t := 900\<rparr>)) \<and>
   cam_ctl_cb (env_at 1000 d_one) (pose_at_zoom 0) 0
       (init_globals\<lparr>cam_ctl := True, allow_zoom_t := 900\<rparr>) =
     (0, pose_at_zoom d_one, init_globals\<lparr>allow_zoom_t := 900\<rparr>) \<and>
   cam_ctl_cb_ext fpu_at_rest (env_at 1000 d_one) (pose_at_zoom 0) 0
       (init_globals\<lparr>cam_ctl := True, allow_zoom_t := 900\<rparr>) =
     (0, pose_at_zoom d_one, init_globals\<lparr>allow_zoom_t := 900\<rparr>)"
  using idempotent_release [where losing_ctl = 0
      and g = "init_globals\<lparr>cam_ctl := True, allow_zoom_t := 900\<rparr>"
      and e = "env_at 1000 d_one" and buf = "pose_at_zoom 0" and fp = fpu_at_rest]
  by (simp add: cam_ctl_cb_def cam_ctl_cb_ext_def input_defs d_cmp_defs)

section \<open>The permission to zoom\<close>

text \<open>
  C3 (permission). With \<^verbatim>\<open>losing_ctl\<close> zero, the callback of either variant follows the
  zoom of the camera (it returns 0, leaves the camera position as it is and stores its
  zoom in \<^verbatim>\<open>zoom_tgt\<close>) exactly under the permission of the specification:
  \<^verbatim>\<open>allow_zoom\<close> is true, or the deadline is not zero and the time is strictly less than
  the deadline, both read as numbers. Without the permission \<^verbatim>\<open>zoom_tgt\<close> keeps its value
  and the callback returns 1 exactly when the zoom differs from it. In particular:
  with \<^verbatim>\<open>allow_zoom\<close> true the permission holds for every deadline and every time; with
  \<^verbatim>\<open>allow_zoom\<close> false and a zero deadline it does not hold; and it does not hold when
  \<^verbatim>\<open>allow_zoom\<close> is false and the time equals the deadline.
\<close>

theorem permission_predicate:
  "(case cam_ctl_cb e buf 0 g of (r, pos', g') \<Rightarrow>
      (if allow_zoom g \<or>
          (unat (allow_zoom_t g) \<noteq> 0 \<and> unat (microclock e) < unat (allow_zoom_t g))
       then r = 0 \<and> pos' = camera e \<and> g' = g\<lparr>zoom_tgt := pos_zoom (camera e), cam_ctl := False\<rparr>
       else zoom_tgt g' = zoom_tgt g \<and> (r = 1 \<longleftrightarrow> d_ne (pos_zoom (camera e)) (zoom_tgt g))) \<and>
      (allow_zoom g \<longrightarrow>
         r = 0 \<and> pos' = camera e \<and> g' = g\<lparr>zoom_tgt := pos_zoom (camera e), cam_ctl := False\<rparr>) \<and>
      (\<not> allow_zoom g \<and> (allow_zoom_t g = 0 \<or> microclock e = allow_zoom_t g) \<longrightarrow>
         zoom_tgt g' = zoom_tgt g \<and> (r = 1 \<longleftrightarrow> d_ne (pos_zoom (camera e)) (zoom_tgt g)))) \<and>
   (case cam_ctl_cb_ext fp e buf 0 g of (r, pos', g') \<Rightarrow>
      (if allow_zoom g \<or>
          (unat (allow_zoom_t g) \<noteq> 0 \<and> unat (microclock e) < unat (allow_zoom_t g))
       then r = 0 \<and> pos' = camera e \<and> g' = g\<lparr>zoom_tgt := pos_zoom (camera e), cam_ctl := False\<rparr>
       else zoom_tgt g' = zoom_tgt g \<and> (r = 1 \<longleftrightarrow> d_ne (pos_zoom (camera e)) (zoom_tgt g))) \<and>
      (allow_zoom g \<longrightarrow>
         r = 0 \<and> pos' = camera e \<and> g' = g\<lparr>zoom_tgt := pos_zoom (camera e), cam_ctl := False\<rparr>) \<and>
      (\<not> allow_zoom g \<and> (allow_zoom_t g = 0 \<or> microclock e = allow_zoom_t g) \<longrightarrow>
         zoom_tgt g' = zoom_tgt g \<and> (r = 1 \<longleftrightarrow> d_ne (pos_zoom (camera e)) (zoom_tgt g))))"
  by (auto simp: cam_ctl_cb_def cam_ctl_cb_ext_def Let_def unat_eq_0 word_less_nat_alt)

text \<open>
  The three cases at concrete inputs, the camera zoomed to 1.3 and \<^verbatim>\<open>zoom_tgt\<close> at 1.0:
  \<^verbatim>\<open>allow_zoom\<close> with a deadline in the past, no \<^verbatim>\<open>allow_zoom\<close> and no deadline, and the
  time of the deadline itself.
\<close>

theorem permission_predicate_witness:
  "cam_ctl_cb (env_at 1000 d_1_3) (pose_at_zoom 0) 0
       (init_globals\<lparr>allow_zoom := True, allow_zoom_t := 900, cam_ctl := True\<rparr>) =
     (0, pose_at_zoom d_1_3,
      init_globals\<lparr>allow_zoom := True, allow_zoom_t := 900, zoom_tgt := d_1_3\<rparr>) \<and>
   cam_ctl_cb (env_at 1000 d_1_3) (pose_at_zoom 0) 0 (init_globals\<lparr>cam_ctl := True\<rparr>) =
     (1, pose_at_zoom d_one, init_globals\<lparr>cam_ctl := True\<rparr>) \<and>
   cam_ctl_cb (env_at 1000 d_1_3) (pose_at_zoom 0) 0
       (init_globals\<lparr>allow_zoom_t := 1000, cam_ctl := True\<rparr>) =
     (1, pose_at_zoom d_one, init_globals\<lparr>cam_ctl := True\<rparr>) \<and>
   cam_ctl_cb (env_at 999 d_1_3) (pose_at_zoom 0) 0
       (init_globals\<lparr>allow_zoom_t := 1000, cam_ctl := True\<rparr>) =
     (0, pose_at_zoom d_1_3, init_globals\<lparr>allow_zoom_t := 1000, zoom_tgt := d_1_3\<rparr>)"
  using
    permission_predicate [where e = "env_at 1000 d_1_3" and buf = "pose_at_zoom 0"
      and g = "init_globals\<lparr>allow_zoom := True, allow_zoom_t := 900, cam_ctl := True\<rparr>"
      and fp = fpu_at_rest]
    permission_predicate [where e = "env_at 1000 d_1_3" and buf = "pose_at_zoom 0"
      and g = "init_globals\<lparr>cam_ctl := True\<rparr>" and fp = fpu_at_rest]
  by (simp add: cam_ctl_cb_def input_defs d_cmp_defs)

text \<open>
  C10 (learning releases). Whenever the callback learns (\<^verbatim>\<open>losing_ctl\<close> zero and zooming
  allowed), it clears \<^verbatim>\<open>cam_ctl\<close> and returns 0 in that call, whatever the zoom of the
  camera and whatever \<^verbatim>\<open>zoom_tgt\<close> was. The callback returns a value other than 0 only
  where it inhibits: \<^verbatim>\<open>losing_ctl\<close> zero, zooming not allowed and the zoom different from
  \<^verbatim>\<open>zoom_tgt\<close>; the value is then 1. Both variants.
\<close>

theorem learning_never_retains:
  "(case cam_ctl_cb e buf losing_ctl g of (r, pos', g') \<Rightarrow>
      (losing_ctl = 0 \<and>
       (allow_zoom g \<or> (allow_zoom_t g \<noteq> 0 \<and> microclock e < allow_zoom_t g)) \<longrightarrow>
         r = 0 \<and> \<not> cam_ctl g') \<and>
      (r \<noteq> 0 \<longrightarrow>
         r = 1 \<and> losing_ctl = 0 \<and> \<not> allow_zoom g \<and>
         (allow_zoom_t g = 0 \<or> \<not> microclock e < allow_zoom_t g) \<and>
         d_ne (pos_zoom (camera e)) (zoom_tgt g))) \<and>
   (case cam_ctl_cb_ext fp e buf losing_ctl g of (r, pos', g') \<Rightarrow>
      (losing_ctl = 0 \<and>
       (allow_zoom g \<or> (allow_zoom_t g \<noteq> 0 \<and> microclock e < allow_zoom_t g)) \<longrightarrow>
         r = 0 \<and> \<not> cam_ctl g') \<and>
      (r \<noteq> 0 \<longrightarrow>
         r = 1 \<and> losing_ctl = 0 \<and> \<not> allow_zoom g \<and>
         (allow_zoom_t g = 0 \<or> \<not> microclock e < allow_zoom_t g) \<and>
         d_ne (pos_zoom (camera e)) (zoom_tgt g)))"
  by (auto simp: cam_ctl_cb_def cam_ctl_cb_ext_def Let_def)

text \<open>
  A learning call with the zoom at 1.3 and \<^verbatim>\<open>zoom_tgt\<close> at 1.0, and an inhibiting call
  that returns 1.
\<close>

theorem learning_never_retains_witness:
  "allow_zoom (init_globals\<lparr>allow_zoom := True, cam_ctl := True\<rparr>) \<and>
   d_ne (pos_zoom (camera (env_at 1000 d_1_3)))
     (zoom_tgt (init_globals\<lparr>allow_zoom := True, cam_ctl := True\<rparr>)) \<and>
   fst (cam_ctl_cb (env_at 1000 d_1_3) (pose_at_zoom 0) 0
       (init_globals\<lparr>allow_zoom := True, cam_ctl := True\<rparr>)) = 0 \<and>
   \<not> cam_ctl (snd (snd (cam_ctl_cb (env_at 1000 d_1_3) (pose_at_zoom 0) 0
       (init_globals\<lparr>allow_zoom := True, cam_ctl := True\<rparr>)))) \<and>
   fst (cam_ctl_cb_ext fpu_at_rest (env_at 1000 d_1_3) (pose_at_zoom 0) 0
       (init_globals\<lparr>allow_zoom := True, cam_ctl := True\<rparr>)) = 0 \<and>
   fst (cam_ctl_cb (env_at 1000 d_1_3) (pose_at_zoom 0) 0
       (init_globals\<lparr>cam_ctl := True\<rparr>)) = 1 \<and>
   \<not> allow_zoom (init_globals\<lparr>cam_ctl := True\<rparr>) \<and>
   allow_zoom_t (init_globals\<lparr>cam_ctl := True\<rparr>) = 0"
  using
    learning_never_retains [where e = "env_at 1000 d_1_3" and buf = "pose_at_zoom 0"
      and losing_ctl = 0 and g = "init_globals\<lparr>allow_zoom := True, cam_ctl := True\<rparr>"
      and fp = fpu_at_rest]
    learning_never_retains [where e = "env_at 1000 d_1_3" and buf = "pose_at_zoom 0"
      and losing_ctl = 0 and g = "init_globals\<lparr>cam_ctl := True\<rparr>" and fp = fpu_at_rest]
  by (simp add: cam_ctl_cb_def cam_ctl_cb_ext_def input_defs d_cmp_defs)

section \<open>The two variants of the callback\<close>

text \<open>
  C9 (variants). For every state, pose, camera position and \<^verbatim>\<open>losing_ctl\<close>, the 2021
  variant and the 2019 variant return the same value and leave the same variables
  (\<^verbatim>\<open>cam_ctl\<close>, \<^verbatim>\<open>zoom_tgt\<close>, the deadline, \<^verbatim>\<open>allow_zoom\<close>) and the same zoom in the
  pose. Where the zoom is inhibited, the pose of the 2021 variant is that of the 2019
  variant with \<open>v * dt + 0.5 * a * (dt * dt)\<close> added to each of x, y, z and
  \<open>rate * dt\<close> added to roll, pitch and heading (the rates P, Q, R in this order), in
  the arithmetic of doubles and the order of the C expression; everywhere else the two
  poses are the same.
\<close>

theorem variants_agree:
  "(case (cam_ctl_cb_ext fp e buf losing_ctl g, cam_ctl_cb e buf losing_ctl g) of
      ((r1, p1, g1), (r2, p2, g2)) \<Rightarrow>
        r1 = r2 \<and> g1 = g2 \<and> pos_zoom p1 = pos_zoom p2 \<and>
        p1 =
          (if losing_ctl = 0 \<and>
              \<not> (allow_zoom g \<or> (allow_zoom_t g \<noteq> 0 \<and> microclock e < allow_zoom_t g)) \<and>
              d_ne (pos_zoom (camera e)) (zoom_tgt g)
           then
             p2\<lparr>pos_x := d_add fp (pos_x p2)
                   (d_add fp (d_mul fp (local_vx (datarefs e)) (frame_intval (datarefs e)))
                     (d_mul fp (d_mul fp d_half (local_ax (datarefs e)))
                       (d_mul fp (frame_intval (datarefs e)) (frame_intval (datarefs e))))),
                pos_y := d_add fp (pos_y p2)
                   (d_add fp (d_mul fp (local_vy (datarefs e)) (frame_intval (datarefs e)))
                     (d_mul fp (d_mul fp d_half (local_ay (datarefs e)))
                       (d_mul fp (frame_intval (datarefs e)) (frame_intval (datarefs e))))),
                pos_z := d_add fp (pos_z p2)
                   (d_add fp (d_mul fp (local_vz (datarefs e)) (frame_intval (datarefs e)))
                     (d_mul fp (d_mul fp d_half (local_az (datarefs e)))
                       (d_mul fp (frame_intval (datarefs e)) (frame_intval (datarefs e))))),
                pos_roll := d_add fp (pos_roll p2)
                   (d_mul fp (rate_P (datarefs e)) (frame_intval (datarefs e))),
                pos_pitch := d_add fp (pos_pitch p2)
                   (d_mul fp (rate_Q (datarefs e)) (frame_intval (datarefs e))),
                pos_heading := d_add fp (pos_heading p2)
                   (d_mul fp (rate_R (datarefs e)) (frame_intval (datarefs e)))\<rparr>
           else p2))"
  by (simp add: cam_ctl_cb_def cam_ctl_cb_ext_def Let_def POW2_def)

text \<open>
  An inhibiting call on an aircraft at rest (both variants leave the same pose) and a
  learning call.
\<close>

theorem variants_agree_witness:
  "cam_ctl_cb_ext fpu_at_rest (env_at 1000 d_1_3) (pose_at_zoom 0) 0
       (init_globals\<lparr>cam_ctl := True\<rparr>) =
     (1, pose_at_zoom d_one, init_globals\<lparr>cam_ctl := True\<rparr>) \<and>
   cam_ctl_cb (env_at 1000 d_1_3) (pose_at_zoom 0) 0 (init_globals\<lparr>cam_ctl := True\<rparr>) =
     (1, pose_at_zoom d_one, init_globals\<lparr>cam_ctl := True\<rparr>) \<and>
   cam_ctl_cb_ext fpu_at_rest (env_at 1000 d_1_3) (pose_at_zoom 0) 0
       (init_globals\<lparr>allow_zoom := True, cam_ctl := True\<rparr>) =
     cam_ctl_cb (env_at 1000 d_1_3) (pose_at_zoom 0) 0
       (init_globals\<lparr>allow_zoom := True, cam_ctl := True\<rparr>)"
  using
    variants_agree [where fp = fpu_at_rest and e = "env_at 1000 d_1_3"
      and buf = "pose_at_zoom 0" and losing_ctl = 0 and g = "init_globals\<lparr>cam_ctl := True\<rparr>"]
    variants_agree [where fp = fpu_at_rest and e = "env_at 1000 d_1_3"
      and buf = "pose_at_zoom 0" and losing_ctl = 0
      and g = "init_globals\<lparr>allow_zoom := True, cam_ctl := True\<rparr>"]
  by (simp add: cam_ctl_cb_def cam_ctl_cb_ext_def POW2_def input_defs d_cmp_defs)

section \<open>The command handlers\<close>

text \<open>
  A deadline set again before it has passed is not the first time plus twice the
  duration, also where the additions wrap around.
\<close>

lemma u64_not_accumulated:
  fixes a b T :: u64
  assumes "b < a + T"
  shows "b + T \<noteq> a + 2 * T"
proof
  assume "b + T = a + 2 * T"
  then have "b + T = (a + T) + T"
    by (simp add: algebra_simps)
  then have "b = a + T"
    by simp
  with assms show False
    by simp
qed

text \<open>
  C5 (overwriting, not accumulating). \<^verbatim>\<open>zoom_cmd_cb\<close> runs at time \<open>t1\<close> and again at a
  later time \<open>t2\<close>, before the first deadline \<open>t1 + 550000\<close> has passed. The deadline
  is then \<open>t2 + 550000\<close> and not \<open>t1 + 2 * 550000\<close>, and the variables are those
  that the second call alone would leave. Every handler that writes the deadline
  (\<^verbatim>\<open>zoom_cmd_cb\<close>, \<^verbatim>\<open>quick_look_cmd_cb\<close>, the release of the hold command, the toggle
  command switching off) leaves the same variables whatever deadline was stored before,
  the deadline being the time of the call plus the duration of the handler.
\<close>

theorem deadline_overwritten:
  assumes "microclock e1 < microclock e2"
    and "microclock e2 < microclock e1 + ZOOM_REL_CMD_T"
  shows "allow_zoom_t (snd (zoom_cmd_cb e2 ref2 ph2 (snd (zoom_cmd_cb e1 ref1 ph1 g)))) =
           microclock e2 + 550000 \<and>
         allow_zoom_t (snd (zoom_cmd_cb e2 ref2 ph2 (snd (zoom_cmd_cb e1 ref1 ph1 g)))) \<noteq>
           microclock e1 + 2 * 550000 \<and>
         snd (zoom_cmd_cb e2 ref2 ph2 (snd (zoom_cmd_cb e1 ref1 ph1 g))) =
           snd (zoom_cmd_cb e2 ref2 ph2 g) \<and>
         snd (zoom_cmd_cb e2 ref2 ph2 (snd (quick_look_cmd_cb e1 ref1 ph1 g))) =
           snd (zoom_cmd_cb e2 ref2 ph2 g) \<and>
         zoom_cmd_cb e ref ph (g\<lparr>allow_zoom_t := d\<rparr>) =
           (1, g\<lparr>allow_zoom_t := microclock e + 550000\<rparr>) \<and>
         quick_look_cmd_cb e ref ph (g\<lparr>allow_zoom_t := d\<rparr>) =
           (1, g\<lparr>allow_zoom_t := microclock e + 1250000\<rparr>) \<and>
         allow_zoom_cb c e (allow_zoom_hold c) xplm_CommandEnd (g\<lparr>allow_zoom_t := d\<rparr>) =
           (1, g\<lparr>allow_zoom := False, allow_zoom_t := microclock e + 500000\<rparr>) \<and>
         (allow_zoom_tog c \<noteq> allow_zoom_hold c \<and> allow_zoom g \<longrightarrow>
            allow_zoom_cb c e (allow_zoom_tog c) xplm_CommandBegin (g\<lparr>allow_zoom_t := d\<rparr>) =
              (1, g\<lparr>allow_zoom := False, allow_zoom_t := microclock e + 500000\<rparr>))"
proof -
  have "microclock e2 < microclock e1 + 550000"
    using assms(2) by (simp add: ZOOM_REL_CMD_T_def)
  then have ne: "microclock e2 + 550000 \<noteq> microclock e1 + 2 * 550000"
    by (rule u64_not_accumulated)
  show ?thesis
    using ne
    by (simp add: zoom_cmd_cb_def quick_look_cmd_cb_def allow_zoom_cb_def duration_defs Let_def)
qed

text \<open>
  The zoom command at 1 s and again at 1.2 s: the deadline is at 1.75 s, not at 2.1 s.
  The toggle command switching off at 1.2 s over a stored deadline of 7 s.
\<close>

theorem deadline_overwritten_witness:
  "microclock (env_at 1000000 d_one) < microclock (env_at 1200000 d_one) \<and>
   microclock (env_at 1200000 d_one) < microclock (env_at 1000000 d_one) + ZOOM_REL_CMD_T \<and>
   allow_zoom_t (snd (zoom_cmd_cb (env_at 1200000 d_one) 1 xplm_CommandBegin
     (snd (zoom_cmd_cb (env_at 1000000 d_one) 1 xplm_CommandBegin init_globals)))) = 1750000 \<and>
   allow_zoom_tog cmds_ex \<noteq> allow_zoom_hold cmds_ex \<and>
   allow_zoom (init_globals\<lparr>allow_zoom := True\<rparr>) \<and>
   allow_zoom_cb cmds_ex (env_at 1200000 d_one) (allow_zoom_tog cmds_ex) xplm_CommandBegin
       (init_globals\<lparr>allow_zoom := True, allow_zoom_t := 7000000\<rparr>) =
     (1, init_globals\<lparr>allow_zoom_t := 1700000\<rparr>)"
  using deadline_overwritten [where ?e1.0 = "env_at 1000000 d_one"
      and ?e2.0 = "env_at 1200000 d_one" and ?ref1.0 = 1 and ?ref2.0 = 1
      and ?ph1.0 = xplm_CommandBegin and ?ph2.0 = xplm_CommandBegin and g = init_globals]
    deadline_overwritten [where ?e1.0 = "env_at 1000000 d_one"
      and ?e2.0 = "env_at 1200000 d_one" and c = cmds_ex and e = "env_at 1200000 d_one"
      and g = "init_globals\<lparr>allow_zoom := True\<rparr>" and d = 7000000]
  by (simp add: zoom_cmd_cb_def allow_zoom_cb_def duration_defs input_defs)

text \<open>
  C6 (toggle). The handler of the toggle command (a command other than the hold command),
  on \<^verbatim>\<open>xplm_CommandBegin\<close>, negates \<^verbatim>\<open>allow_zoom\<close>; where \<^verbatim>\<open>allow_zoom\<close> is false
  afterwards the deadline is the time plus 500000 microseconds, and where it is true
  afterwards the deadline is untouched; \<^verbatim>\<open>cam_ctl\<close> and \<^verbatim>\<open>zoom_tgt\<close> are untouched. On
  \<^verbatim>\<open>xplm_CommandContinue\<close> and \<^verbatim>\<open>xplm_CommandEnd\<close> it changes no variable.
\<close>

theorem toggle_handler:
  assumes "allow_zoom_tog c \<noteq> allow_zoom_hold c"
  shows "(case allow_zoom_cb c e (allow_zoom_tog c) xplm_CommandBegin g of (r, g') \<Rightarrow>
            r = 1 \<and> allow_zoom g' = (\<not> allow_zoom g) \<and>
            (\<not> allow_zoom g' \<longrightarrow> allow_zoom_t g' = microclock e + 500000) \<and>
            (allow_zoom g' \<longrightarrow> allow_zoom_t g' = allow_zoom_t g) \<and>
            cam_ctl g' = cam_ctl g \<and> zoom_tgt g' = zoom_tgt g) \<and>
         allow_zoom_cb c e (allow_zoom_tog c) xplm_CommandContinue g = (1, g) \<and>
         allow_zoom_cb c e (allow_zoom_tog c) xplm_CommandEnd g = (1, g)"
  using assms by (simp add: allow_zoom_cb_def duration_defs Let_def)

theorem toggle_handler_witness:
  "allow_zoom_tog cmds_ex \<noteq> allow_zoom_hold cmds_ex \<and>
   allow_zoom_cb cmds_ex (env_at 1200000 d_one) (allow_zoom_tog cmds_ex) xplm_CommandBegin
       (init_globals\<lparr>allow_zoom := True, allow_zoom_t := 42\<rparr>) =
     (1, init_globals\<lparr>allow_zoom_t := 1700000\<rparr>) \<and>
   allow_zoom_cb cmds_ex (env_at 1200000 d_one) (allow_zoom_tog cmds_ex) xplm_CommandBegin
       (init_globals\<lparr>allow_zoom_t := 42\<rparr>) =
     (1, init_globals\<lparr>allow_zoom := True, allow_zoom_t := 42\<rparr>) \<and>
   allow_zoom_cb cmds_ex (env_at 1200000 d_one) (allow_zoom_tog cmds_ex) xplm_CommandEnd
       (init_globals\<lparr>allow_zoom := True, allow_zoom_t := 42\<rparr>) =
     (1, init_globals\<lparr>allow_zoom := True, allow_zoom_t := 42\<rparr>)"
  using
    toggle_handler [where c = cmds_ex and e = "env_at 1200000 d_one"
      and g = "init_globals\<lparr>allow_zoom := True, allow_zoom_t := 42\<rparr>"]
    toggle_handler [where c = cmds_ex and e = "env_at 1200000 d_one"
      and g = "init_globals\<lparr>allow_zoom_t := 42\<rparr>"]
  by (simp add: allow_zoom_cb_def duration_defs input_defs)

lemma XPluginEnable_zoom_cmds:
  "length (filter (\<lambda>b. snd b = Zoom_cmd_cb) XPluginEnable_cmd_bind) = 6"
  by code_simp

lemma XPluginEnable_quick_look_cmds:
  "length (filter (\<lambda>b. snd b = Quick_look_cmd_cb) XPluginEnable_cmd_bind) = 20"
  by code_simp

lemma XPluginEnable_cmds_distinct: "distinct (map fst XPluginEnable_cmd_bind)"
  by code_simp

text \<open>
  C7 (passive commands). \<^verbatim>\<open>XPluginEnable\<close> binds six zoom commands to \<^verbatim>\<open>zoom_cmd_cb\<close> and
  twenty quick-look commands to \<^verbatim>\<open>quick_look_cmd_cb\<close>, all of different names. Every call
  of the handler of one of them, for any command reference and any phase, sets the
  deadline to the time plus 550000 microseconds for a zoom command and plus 1250000
  microseconds for a quick-look command (in 64-bit unsigned arithmetic; this is the sum
  of the numbers where that sum is below \<open>2\<^sup>6\<^sup>4\<close>), returns 1, and leaves \<^verbatim>\<open>allow_zoom\<close>,
  \<^verbatim>\<open>cam_ctl\<close> and \<^verbatim>\<open>zoom_tgt\<close> as they are.
\<close>

theorem passive_handlers:
  "(\<forall>b \<in> set XPluginEnable_cmd_bind.
      case call_handler (snd b) e ref ph g of (r, g') \<Rightarrow>
        r = 1 \<and>
        allow_zoom_t g' =
          microclock e + (if snd b = Zoom_cmd_cb then 550000 else 1250000) \<and>
        (unat (microclock e) + (if snd b = Zoom_cmd_cb then 550000 else 1250000) < 2 ^ 64 \<longrightarrow>
           unat (allow_zoom_t g') =
             unat (microclock e) + (if snd b = Zoom_cmd_cb then 550000 else 1250000)) \<and>
        allow_zoom g' = allow_zoom g \<and> cam_ctl g' = cam_ctl g \<and> zoom_tgt g' = zoom_tgt g) \<and>
   zoom_cmd_cb e ref ph g = (1, g\<lparr>allow_zoom_t := microclock e + 550000\<rparr>) \<and>
   quick_look_cmd_cb e ref ph g = (1, g\<lparr>allow_zoom_t := microclock e + 1250000\<rparr>) \<and>
   length (filter (\<lambda>b. snd b = Zoom_cmd_cb) XPluginEnable_cmd_bind) = 6 \<and>
   length (filter (\<lambda>b. snd b = Quick_look_cmd_cb) XPluginEnable_cmd_bind) = 20 \<and>
   distinct (map fst XPluginEnable_cmd_bind)"
proof -
  have z: "unat (microclock e) + 550000 < 2 ^ 64 \<Longrightarrow>
      unat (microclock e + 550000) = unat (microclock e) + 550000"
    using u64_deadline_no_wrap [of "microclock e" 550000] by simp
  have q: "unat (microclock e) + 1250000 < 2 ^ 64 \<Longrightarrow>
      unat (microclock e + 1250000) = unat (microclock e) + 1250000"
    using u64_deadline_no_wrap [of "microclock e" 1250000] by simp
  have "case call_handler h e ref ph g of (r, g') \<Rightarrow>
        r = 1 \<and>
        allow_zoom_t g' = microclock e + (if h = Zoom_cmd_cb then 550000 else 1250000) \<and>
        (unat (microclock e) + (if h = Zoom_cmd_cb then 550000 else 1250000) < 2 ^ 64 \<longrightarrow>
           unat (allow_zoom_t g') =
             unat (microclock e) + (if h = Zoom_cmd_cb then 550000 else 1250000)) \<and>
        allow_zoom g' = allow_zoom g \<and> cam_ctl g' = cam_ctl g \<and> zoom_tgt g' = zoom_tgt g"
    for h
    using z q
    by (cases h) (simp_all add: call_handler_def zoom_cmd_cb_def quick_look_cmd_cb_def
        duration_defs)
  then show ?thesis
    using XPluginEnable_zoom_cmds XPluginEnable_quick_look_cmds XPluginEnable_cmds_distinct
    by (simp add: zoom_cmd_cb_def quick_look_cmd_cb_def duration_defs)
qed

text \<open>
  The command \<^verbatim>\<open>sim/general/zoom_in_fast\<close> and the command \<^verbatim>\<open>sim/view/quick_look_19\<close> at
  1 s, on end of the command and with \<^verbatim>\<open>allow_zoom\<close> true.
\<close>

theorem passive_handlers_witness:
  "(''sim/general/zoom_in_fast'', Zoom_cmd_cb) \<in> set XPluginEnable_cmd_bind \<and>
   (''sim/view/quick_look_19'', Quick_look_cmd_cb) \<in> set XPluginEnable_cmd_bind \<and>
   unat (microclock (env_at 1000000 d_one)) + 550000 < (2 :: nat) ^ 64 \<and>
   call_handler Zoom_cmd_cb (env_at 1000000 d_one) 7 xplm_CommandEnd
       (init_globals\<lparr>allow_zoom := True, allow_zoom_t := 42\<rparr>) =
     (1, init_globals\<lparr>allow_zoom := True, allow_zoom_t := 1550000\<rparr>) \<and>
   call_handler Quick_look_cmd_cb (env_at 1000000 d_one) 7 xplm_CommandEnd
       (init_globals\<lparr>allow_zoom := True, allow_zoom_t := 42\<rparr>) =
     (1, init_globals\<lparr>allow_zoom := True, allow_zoom_t := 2250000\<rparr>) \<and>
   unat (allow_zoom_t (snd (call_handler Zoom_cmd_cb (env_at 1000000 d_one) 7 xplm_CommandEnd
       (init_globals\<lparr>allow_zoom := True, allow_zoom_t := 42\<rparr>)))) = 1550000"
proof -
  have z: "(''sim/general/zoom_in_fast'', Zoom_cmd_cb) \<in> set XPluginEnable_cmd_bind"
    by code_simp
  have q: "(''sim/view/quick_look_19'', Quick_look_cmd_cb) \<in> set XPluginEnable_cmd_bind"
    by code_simp
  have all: "\<forall>b \<in> set XPluginEnable_cmd_bind.
      case call_handler (snd b) (env_at 1000000 d_one) 7 xplm_CommandEnd
          (init_globals\<lparr>allow_zoom := True, allow_zoom_t := 42\<rparr>) of (r, g') \<Rightarrow>
        r = 1 \<and>
        allow_zoom_t g' =
          microclock (env_at 1000000 d_one) +
            (if snd b = Zoom_cmd_cb then 550000 else 1250000) \<and>
        (unat (microclock (env_at 1000000 d_one)) +
            (if snd b = Zoom_cmd_cb then 550000 else 1250000) < 2 ^ 64 \<longrightarrow>
           unat (allow_zoom_t g') =
             unat (microclock (env_at 1000000 d_one)) +
               (if snd b = Zoom_cmd_cb then 550000 else 1250000)) \<and>
        allow_zoom g' = allow_zoom (init_globals\<lparr>allow_zoom := True, allow_zoom_t := 42\<rparr>) \<and>
        cam_ctl g' = cam_ctl (init_globals\<lparr>allow_zoom := True, allow_zoom_t := 42\<rparr>) \<and>
        zoom_tgt g' = zoom_tgt (init_globals\<lparr>allow_zoom := True, allow_zoom_t := 42\<rparr>)"
    using passive_handlers [where e = "env_at 1000000 d_one" and ref = 7
        and ph = xplm_CommandEnd
        and g = "init_globals\<lparr>allow_zoom := True, allow_zoom_t := 42\<rparr>"]
    by (rule conjunct1)
  show ?thesis
    using z q bspec [OF all z] bspec [OF all q]
    by (simp add: call_handler_def zoom_cmd_cb_def quick_look_cmd_cb_def duration_defs
        input_defs)
qed

section \<open>The draw callback\<close>

text \<open>
  C8 (frame gate). \<^verbatim>\<open>draw_cb\<close> returns 1. Where the view is not external
  (\<^verbatim>\<open>view_is_ext\<close> reads zero) and \<^verbatim>\<open>cam_ctl\<close> is false, it calls \<^verbatim>\<open>XPLMControlCamera\<close>
  once, with \<^verbatim>\<open>xplm_ControlCameraUntilViewChanges\<close> and the camera control callback, and
  sets \<^verbatim>\<open>cam_ctl\<close>; in every other case it makes no call and changes no variable. It
  never clears \<^verbatim>\<open>cam_ctl\<close>, and neither does any command handler, which leave
  \<^verbatim>\<open>cam_ctl\<close> as it is; the camera control callback of either variant clears it, for one
  whenever \<^verbatim>\<open>losing_ctl\<close> is not zero.
\<close>

theorem frame_gate:
  "(case draw_cb e g of (r, g', calls) \<Rightarrow>
      r = 1 \<and>
      (if view_is_ext (datarefs e) = 0 \<and> \<not> cam_ctl g
       then g' = g\<lparr>cam_ctl := True\<rparr> \<and>
            calls = [XPLMControlCamera xplm_ControlCameraUntilViewChanges Cam_ctl_cb]
       else g' = g \<and> calls = []) \<and>
      (cam_ctl g \<longrightarrow> cam_ctl g')) \<and>
   cam_ctl (snd (quick_look_cmd_cb e ref ph g)) = cam_ctl g \<and>
   cam_ctl (snd (zoom_cmd_cb e ref ph g)) = cam_ctl g \<and>
   cam_ctl (snd (allow_zoom_cb c e ref ph g)) = cam_ctl g \<and>
   (losing_ctl \<noteq> 0 \<longrightarrow>
      \<not> cam_ctl (snd (snd (cam_ctl_cb e buf losing_ctl g))) \<and>
      \<not> cam_ctl (snd (snd (cam_ctl_cb_ext fp e buf losing_ctl g))))"
  by (simp add: draw_cb_def quick_look_cmd_cb_def zoom_cmd_cb_def allow_zoom_cb_def
      cam_ctl_cb_def cam_ctl_cb_ext_def Let_def)

text \<open>
  A cockpit view without control of the camera, a cockpit view with it, an external
  view, and the callback losing control.
\<close>

theorem frame_gate_witness:
  "draw_cb (env_at 1000 d_one) init_globals =
     (1, init_globals\<lparr>cam_ctl := True\<rparr>,
      [XPLMControlCamera xplm_ControlCameraUntilViewChanges Cam_ctl_cb]) \<and>
   draw_cb (env_at 1000 d_one) (init_globals\<lparr>cam_ctl := True\<rparr>) =
     (1, init_globals\<lparr>cam_ctl := True\<rparr>, []) \<and>
   draw_cb ((env_at 1000 d_one)\<lparr>datarefs := drs_at_rest 1\<rparr>) init_globals =
     (1, init_globals, []) \<and>
   cam_ctl (init_globals\<lparr>cam_ctl := True\<rparr>) \<and>
   \<not> cam_ctl (snd (snd (cam_ctl_cb (env_at 1000 d_one) (pose_at_zoom 0) 1
       (init_globals\<lparr>cam_ctl := True\<rparr>))))"
  using
    frame_gate [where e = "env_at 1000 d_one" and g = init_globals]
    frame_gate [where e = "env_at 1000 d_one" and g = "init_globals\<lparr>cam_ctl := True\<rparr>"
      and losing_ctl = 1 and buf = "pose_at_zoom 0"]
    frame_gate [where e = "(env_at 1000 d_one)\<lparr>datarefs := drs_at_rest 1\<rparr>"
      and g = init_globals]
  by (simp add: draw_cb_def cam_ctl_cb_def input_defs)

end
